theory Spec2Isabelle
  imports Main
begin

section \<open>The compliance engine of src/compliance/index.js\<close>

text \<open>
  The engine (class \<open>ComplianceEngine\<close>) holds an object that maps module names to
  policy-module instances and a reference to the array of enabled names. The policy
  modules are foreign code, called through three entry points only: the class constructor,
  \<open>checkCompliance(content, context)\<close> and \<open>getRequirements()\<close>. Each call either returns
  a value or throws one, so each is a parameter of the model with a sum as its result
  (\<open>Inl\<close> the thrown value).

  A \<open>checkCompliance\<close> call may change state the modules keep (a configured pattern with
  the \<open>g\<close> flag keeps its \<open>lastIndex\<close>, and configuration objects can be shared between
  modules), so it also takes and returns the state \<open>'w\<close> of everything the modules can
  reach. \<open>getRequirements()\<close> and the constructors only read what they are given and are
  functions. What the modules cannot reach is the engine object itself: no module call
  changes the module map or the array of enabled names, which are changed by the engine's
  own methods only.
\<close>

subsection \<open>Values that cross the module boundary\<close>

text \<open>A violation object \<open>{ type, message, severity }\<close>; all three are strings in the source.\<close>

record violation =
  type :: string
  message :: string
  severity :: string

text \<open>
  The object a module's \<open>checkCompliance\<close> resolves to. Every module builds it with
  \<open>compliant\<close>, \<open>violations\<close> and \<open>recommendations\<close>; the remaining, module-specific
  properties (\<open>riskLevel\<close>, \<open>personalDataDetected\<close>, ...) are kept as \<open>findings\<close>. A value a
  module returns is taken to be such an object, as the \<open>@returns\<close> of each module says.
\<close>

record 'f module_result =
  compliant :: bool
  violations :: "violation list"
  recommendations :: "string list"
  findings :: "(string \<times> 'f) list"

text \<open>
  A thrown value (or the reason of a rejected promise). JavaScript lets any value be
  thrown. What the engine does with it is read its \<open>message\<close> property and render it inside
  a template literal (line 69):
  \<^item> on \<open>undefined\<close> and \<open>null\<close> the read raises a TypeError;
  \<^item> \<open>JsError m\<close> is a value whose \<open>message\<close> renders to the text \<open>m\<close> (for a value without
    that property, the text \<open>undefined\<close>);
  \<^item> \<open>JsSymbolMessage\<close> is a value whose \<open>message\<close> is a Symbol, which a template literal
    refuses with a TypeError;
  \<^item> \<open>JsMessageThrows t\<close> is a value whose \<open>message\<close> getter, or the conversion of its
    \<open>message\<close> to a string, throws \<open>t\<close>.
\<close>

datatype js_thrown =
    JsUndefined
  | JsNull
  | JsError string
  | JsSymbolMessage
  | JsMessageThrows js_thrown

text \<open>
  What a method of the engine can raise to its caller: a TypeError of the runtime, or a
  value thrown by foreign code that the engine does not catch.
\<close>

datatype js_exception = TypeError | Uncaught js_thrown

text \<open>The text of \<open>${error.message}\<close>, or what evaluating it raises.\<close>

fun message_of :: "js_thrown \<Rightarrow> js_exception + string" where
  "message_of JsUndefined = Inl TypeError"
| "message_of JsNull = Inl TypeError"
| "message_of (JsError m) = Inr m"
| "message_of JsSymbolMessage = Inl TypeError"
| "message_of (JsMessageThrows t) = Inl (Uncaught t)"

text \<open>
  A value found in the module map: the class that constructed it (its \<open>constructor\<close>
  property) and the fields it holds.
\<close>

record ('cls, 'st) module_instance =
  constructor :: 'cls
  instance_fields :: 'st

subsection \<open>Objects used as dictionaries\<close>

text \<open>
  \<open>this.complianceModules\<close> is an object literal. Reading \<open>obj[name]\<close> finds an own property
  first and then looks along the prototype chain, so names such as \<open>toString\<close>,
  \<open>constructor\<close> and \<open>__proto__\<close> are found although no module was stored under them.
  \<open>own\<close> holds the own properties and \<open>inherited\<close> what the prototype chain yields; in
  both, \<open>None\<close> stands for a value that is not truthy (no property, or a falsy one), which
  is all the guards of lines 48, 93 and 128 ask.
\<close>

record 'v js_object =
  own :: "string \<rightharpoonup> 'v"
  inherited :: "string \<rightharpoonup> 'v"

definition js_get :: "'v js_object \<Rightarrow> string \<Rightarrow> 'v option" where
  "js_get obj name = (case own obj name of Some v \<Rightarrow> Some v | None \<Rightarrow> inherited obj name)"

text \<open>
  The assignment \<open>obj[name] = v\<close> of an object \<open>v\<close>. It creates or overwrites an own
  property, except under the name \<open>__proto__\<close>: unless the object has an own property of
  that name, the inherited setter makes \<open>v\<close> the prototype of \<open>obj\<close> and no own property
  is stored. \<open>proto_of v\<close> is what a lookup finds along the chain that starts at \<open>v\<close>.
\<close>

definition js_set ::
  "('v \<Rightarrow> string \<rightharpoonup> 'v) \<Rightarrow> 'v js_object \<Rightarrow> string \<Rightarrow> 'v \<Rightarrow> 'v js_object" where
  "js_set proto_of obj name v =
     (if name = ''__proto__'' \<and> own obj name = None
      then obj\<lparr> inherited := proto_of v \<rparr>
      else obj\<lparr> own := (own obj)(name \<mapsto> v) \<rparr>)"

text \<open>
  \<open>results.moduleResults\<close> and \<open>requirements\<close> start as the empty literal \<open>{}\<close> and are
  only assigned to. They are modelled by their own properties, the entries a consumer of
  the report enumerates: under the name \<open>__proto__\<close> the assignment stores none (the change
  of their prototype is not represented).
\<close>

definition store_property :: "(string \<rightharpoonup> 'v) \<Rightarrow> string \<Rightarrow> 'v \<Rightarrow> (string \<rightharpoonup> 'v)" where
  "store_property obj name v = (if name = ''__proto__'' then obj else obj(name \<mapsto> v))"

subsection \<open>Arrays, held by reference\<close>

text \<open>
  \<open>this.enabledModules\<close> is the very array the caller passed as \<open>options.enabledModules\<close>
  (line 24), so the engine holds a reference into a store of arrays that others may hold
  too. An array that was frozen, sealed or made non-extensible cannot grow. \<open>allocated\<close>
  is the next unused reference.
\<close>

record js_array =
  elements :: "string list"
  extensible :: bool

record array_store =
  arrays :: "nat \<Rightarrow> js_array"
  allocated :: nat

subsection \<open>The engine and its report\<close>

text \<open>
  The engine object and its module map are taken as the constructor made them (neither
  frozen nor sealed); the array of enabled names is an input and may be.
\<close>

record ('cls, 'st) compliance_engine =
  complianceModules :: "('cls, 'st) module_instance js_object"
  enabledModules :: nat
  failOnAnyViolation :: bool

definition enabled_names :: "array_store \<Rightarrow> ('cls, 'st) compliance_engine \<Rightarrow> string list" where
  "enabled_names s e = elements (arrays s (enabledModules e))"

text \<open>
  \<open>results.summary\<close>; its \<open>recommendations\<close> field is named \<open>summary_recommendations\<close> here,
  the name \<open>recommendations\<close> being taken by the field of a module result.
\<close>

record summary =
  totalViolations :: nat
  criticalViolations :: nat
  highViolations :: nat
  summary_recommendations :: "string list"

text \<open>
  The own properties of the summary object, by name: the four of lines 39 to 42, which are
  never added to.
\<close>

datatype js_property = Number nat | StringArray "string list"

definition summary_property :: "summary \<Rightarrow> string \<Rightarrow> js_property option" where
  "summary_property s name =
     map_of [(''totalViolations'', Number (totalViolations s)),
             (''criticalViolations'', Number (criticalViolations s)),
             (''highViolations'', Number (highViolations s)),
             (''recommendations'', StringArray (summary_recommendations s))] name"

record 'f compliance_results =
  overallCompliant :: bool
  moduleResults :: "string \<rightharpoonup> 'f module_result"
  summary :: summary

subsection \<open>checkCompliance (lines 34 to 83)\<close>

text \<open>The initial \<open>results\<close> object, lines 35 to 44.\<close>

definition initial_results :: "'f compliance_results" where
  "initial_results =
     \<lparr> overallCompliant = True,
       moduleResults = Map.empty,
       summary = \<lparr> totalViolations = 0, criticalViolations = 0, highViolations = 0,
                   summary_recommendations = [] \<rparr> \<rparr>"

text \<open>Lines 59 to 61: the three counters of \<open>results.summary\<close>.\<close>

definition count_violations :: "summary \<Rightarrow> 'f module_result \<Rightarrow> summary" where
  "count_violations s moduleResult =
     s\<lparr> totalViolations := totalViolations s + length (violations moduleResult),
        criticalViolations := criticalViolations s
          + length (filter (\<lambda>v. severity v = ''CRITICAL'') (violations moduleResult)),
        highViolations := highViolations s
          + length (filter (\<lambda>v. severity v = ''HIGH'') (violations moduleResult)) \<rparr>"

text \<open>
  Line 62, \<open>recommendations.push(...moduleResult.recommendations)\<close>. The spread passes
  every element as an argument of one call; beyond the number of arguments the runtime
  accepts (\<open>max_args\<close>, which depends on the runtime and its stack) it throws a RangeError
  before anything is pushed. The text is the one of V8, the engine of Node.js.
\<close>

definition RangeError_message :: string where
  "RangeError_message = ''Maximum call stack size exceeded''"

definition push_recommendations :: "nat \<Rightarrow> summary \<Rightarrow> string list \<Rightarrow> js_thrown + summary" where
  "push_recommendations max_args s recs =
     (if length recs \<le> max_args
      then Inr (s\<lparr> summary_recommendations := summary_recommendations s @ recs \<rparr>)
      else Inl (JsError RangeError_message))"

text \<open>Lines 65 to 73: the object stored for a module whose call threw.\<close>

definition module_error :: "string \<Rightarrow> string \<Rightarrow> 'f module_result" where
  "module_error moduleName msg =
     \<lparr> compliant = False,
       violations = [\<lparr> type = ''MODULE_ERROR'',
                       message = ''Compliance module '' @ moduleName @ '' failed: '' @ msg,
                       severity = ''HIGH'' \<rparr>],
       recommendations = [],
       findings = [] \<rparr>"

text \<open>
  The \<open>catch\<close> block, lines 64 to 75, entered with what \<open>results\<close> holds at the throw. The
  object literal is built first; when building its message raises, nothing is assigned
  and the exception leaves the \<open>async\<close> function.
\<close>

definition catch_block ::
  "string \<Rightarrow> js_thrown \<Rightarrow> 'f compliance_results \<Rightarrow> js_exception + 'f compliance_results" where
  "catch_block moduleName error results =
     (case message_of error of
        Inl exn \<Rightarrow> Inl exn
      | Inr msg \<Rightarrow>
          Inr (results\<lparr> moduleResults :=
                          store_property (moduleResults results) moduleName
                            (module_error moduleName msg),
                        overallCompliant := False \<rparr>))"

text \<open>
  The body of the \<open>for\<close> loop, lines 48 to 76, for one name. \<open>call\<close> is the awaited
  \<open>checkCompliance\<close> of the value found under the name. A throw of line 62 comes after
  lines 51 to 61 took effect, and the \<open>catch\<close> block does not undo them.
\<close>

definition checkCompliance_step ::
  "nat \<Rightarrow> ('w \<Rightarrow> ('cls, 'st) module_instance \<Rightarrow> string \<Rightarrow> 'ctx
            \<Rightarrow> (js_thrown + 'f module_result) \<times> 'w)
   \<Rightarrow> ('cls, 'st) compliance_engine \<Rightarrow> string \<Rightarrow> 'ctx
   \<Rightarrow> 'f compliance_results \<Rightarrow> 'w \<Rightarrow> string
   \<Rightarrow> (js_exception + 'f compliance_results) \<times> 'w" where
  "checkCompliance_step max_args call e content context results w moduleName =
     (case js_get (complianceModules e) moduleName of
        None \<Rightarrow> (Inr results, w)
      | Some inst \<Rightarrow>
          (case call w inst content context of
             (Inr moduleResult, w') \<Rightarrow>
               (let counted =
                      results\<lparr> moduleResults :=
                                 store_property (moduleResults results) moduleName moduleResult,
                               overallCompliant :=
                                 (if \<not> compliant moduleResult then False
                                  else overallCompliant results),
                               summary := count_violations (summary results) moduleResult \<rparr>
                in case push_recommendations max_args (summary counted)
                          (recommendations moduleResult) of
                     Inr s \<Rightarrow> (Inr (counted\<lparr> summary := s \<rparr>), w')
                   | Inl error \<Rightarrow> (catch_block moduleName error counted, w'))
           | (Inl error, w') \<Rightarrow> (catch_block moduleName error results, w')))"

text \<open>The loop over \<open>this.enabledModules\<close>, line 47; an exception ends it.\<close>

fun checkCompliance_loop ::
  "nat \<Rightarrow> ('w \<Rightarrow> ('cls, 'st) module_instance \<Rightarrow> string \<Rightarrow> 'ctx
            \<Rightarrow> (js_thrown + 'f module_result) \<times> 'w)
   \<Rightarrow> ('cls, 'st) compliance_engine \<Rightarrow> string \<Rightarrow> 'ctx
   \<Rightarrow> string list \<Rightarrow> 'f compliance_results \<Rightarrow> 'w
   \<Rightarrow> (js_exception + 'f compliance_results) \<times> 'w" where
  "checkCompliance_loop max_args call e content context [] results w = (Inr results, w)"
| "checkCompliance_loop max_args call e content context (moduleName # rest) results w =
     (case checkCompliance_step max_args call e content context results w moduleName of
        (Inl exn, w') \<Rightarrow> (Inl exn, w')
      | (Inr results', w') \<Rightarrow>
          checkCompliance_loop max_args call e content context rest results' w')"

text \<open>
  Line 80, \<open>[...new Set(xs)]\<close>: a JavaScript \<open>Set\<close> keeps its elements in insertion
  order and ignores the insertion of an element it already holds; spreading it into an
  array literal lists them in that order.
\<close>

definition Set_add :: "'a list \<Rightarrow> 'a \<Rightarrow> 'a list" where
  "Set_add s x = (if x \<in> set s then s else s @ [x])"

definition new_Set :: "'a list \<Rightarrow> 'a list" where
  "new_Set xs = foldl Set_add [] xs"

definition checkCompliance ::
  "nat \<Rightarrow> ('w \<Rightarrow> ('cls, 'st) module_instance \<Rightarrow> string \<Rightarrow> 'ctx
            \<Rightarrow> (js_thrown + 'f module_result) \<times> 'w)
   \<Rightarrow> array_store \<Rightarrow> ('cls, 'st) compliance_engine \<Rightarrow> string \<Rightarrow> 'ctx \<Rightarrow> 'w
   \<Rightarrow> (js_exception + 'f compliance_results) \<times> 'w" where
  "checkCompliance max_args call s e content context w =
     (case checkCompliance_loop max_args call e content context (enabled_names s e)
             initial_results w of
        (Inl exn, w') \<Rightarrow> (Inl exn, w')
      | (Inr results, w') \<Rightarrow>
          (Inr (results\<lparr> summary :=
                  (summary results)\<lparr> summary_recommendations :=
                     new_Set (summary_recommendations (summary results)) \<rparr> \<rparr>), w'))"

subsection \<open>getRequirements (lines 89 to 99)\<close>

text \<open>
  \<open>describe\<close> is the \<open>getRequirements()\<close> call on the value found under a name. The loop
  has no \<open>try\<close>: a value thrown by the call leaves \<open>getRequirements\<close> as it is.
\<close>

fun getRequirements_loop ::
  "(('cls, 'st) module_instance \<Rightarrow> js_thrown + 'req) \<Rightarrow> ('cls, 'st) compliance_engine
   \<Rightarrow> string list \<Rightarrow> (string \<rightharpoonup> 'req) \<Rightarrow> js_exception + (string \<rightharpoonup> 'req)" where
  "getRequirements_loop describe e [] requirements = Inr requirements"
| "getRequirements_loop describe e (moduleName # rest) requirements =
     (case js_get (complianceModules e) moduleName of
        None \<Rightarrow> getRequirements_loop describe e rest requirements
      | Some inst \<Rightarrow>
          (case describe inst of
             Inl error \<Rightarrow> Inl (Uncaught error)
           | Inr r \<Rightarrow>
               getRequirements_loop describe e rest (store_property requirements moduleName r)))"

definition getRequirements ::
  "(('cls, 'st) module_instance \<Rightarrow> js_thrown + 'req) \<Rightarrow> array_store
   \<Rightarrow> ('cls, 'st) compliance_engine \<Rightarrow> js_exception + (string \<rightharpoonup> 'req)" where
  "getRequirements describe s e =
     getRequirements_loop describe e (enabled_names s e) Map.empty"

subsection \<open>setModuleEnabled (lines 106 to 112)\<close>

text \<open>
  Line 108 pushes onto the array in place, which every holder of that array sees and
  which raises a TypeError on an array that cannot grow. Line 110 makes \<open>filter\<close> build a
  new array and points \<open>this.enabledModules\<close> at it; the old array is left as it was.
  When the method raises, nothing has been changed.
\<close>

definition setModuleEnabled ::
  "array_store \<Rightarrow> ('cls, 'st) compliance_engine \<Rightarrow> string \<Rightarrow> bool
   \<Rightarrow> js_exception + (array_store \<times> ('cls, 'st) compliance_engine)" where
  "setModuleEnabled s e moduleName enabled =
     (let this_enabledModules = arrays s (enabledModules e) in
      if enabled \<and> moduleName \<notin> set (elements this_enabledModules)
      then (if extensible this_enabledModules
            then Inr (s\<lparr> arrays := (arrays s)(enabledModules e :=
                           this_enabledModules\<lparr> elements :=
                              elements this_enabledModules @ [moduleName] \<rparr>) \<rparr>, e)
            else Inl TypeError)
      else if \<not> enabled
      then Inr (s\<lparr> arrays := (arrays s)(allocated s :=
                      \<lparr> elements = filter (\<lambda>m. m \<noteq> moduleName) (elements this_enabledModules),
                        extensible = True \<rparr>),
                   allocated := Suc (allocated s) \<rparr>,
                e\<lparr> enabledModules := allocated s \<rparr>)
      else Inr (s, e))"

subsection \<open>configureModule (lines 127 to 133)\<close>

text \<open>
  \<open>new\<close> is \<open>new ModuleClass(config)\<close>: the constructor found on the current value, run
  on \<open>config\<close>, giving the fresh value or throwing. The fresh value is assigned under the
  name as any property is (line 131).
\<close>

definition configureModule ::
  "('cls \<Rightarrow> 'cfg \<Rightarrow> js_thrown + ('cls, 'st) module_instance)
   \<Rightarrow> (('cls, 'st) module_instance \<Rightarrow> string \<rightharpoonup> ('cls, 'st) module_instance)
   \<Rightarrow> ('cls, 'st) compliance_engine \<Rightarrow> string \<Rightarrow> 'cfg
   \<Rightarrow> js_exception + ('cls, 'st) compliance_engine" where
  "configureModule new proto_of e moduleName config =
     (case js_get (complianceModules e) moduleName of
        None \<Rightarrow> Inr e
      | Some inst \<Rightarrow>
          (let ModuleClass = constructor inst in
           case new ModuleClass config of
             Inl error \<Rightarrow> Inl (Uncaught error)
           | Inr fresh \<Rightarrow>
               Inr (e\<lparr> complianceModules :=
                      js_set proto_of (complianceModules e) moduleName fresh \<rparr>)))"

subsection \<open>Auxiliary notions used to state the properties\<close>

text \<open>
  The specification's wording of deduplication: the first occurrence of a string wins and
  every later one is dropped.
\<close>

fun first_occurrences :: "'a list \<Rightarrow> 'a list" where
  "first_occurrences [] = []"
| "first_occurrences (x # xs) = x # first_occurrences (filter (\<lambda>y. y \<noteq> x) xs)"

subsection \<open>Stub modules for concrete scenarios\<close>

text \<open>
  A stub class whose constructor stores the configuration it is given and whose two
  methods return, or throw, what that configuration says.
\<close>

record ('f, 'req) stub_fields =
  on_checkCompliance :: "js_thrown + 'f module_result"
  on_getRequirements :: "js_thrown + 'req"

definition stub_checkCompliance ::
  "'w \<Rightarrow> (string, ('f, 'req) stub_fields) module_instance \<Rightarrow> string \<Rightarrow> unit
   \<Rightarrow> (js_thrown + 'f module_result) \<times> 'w" where
  "stub_checkCompliance w inst content context = (on_checkCompliance (instance_fields inst), w)"

definition stub_getRequirements ::
  "(string, ('f, 'req) stub_fields) module_instance \<Rightarrow> js_thrown + 'req" where
  "stub_getRequirements inst = on_getRequirements (instance_fields inst)"

definition stub_returning ::
  "unit module_result \<Rightarrow> (string, (unit, string) stub_fields) module_instance" where
  "stub_returning moduleResult =
     \<lparr> constructor = ''Stub'',
       instance_fields = \<lparr> on_checkCompliance = Inr moduleResult,
                           on_getRequirements = Inr ''stub requirements'' \<rparr> \<rparr>"

definition stub_throwing ::
  "js_thrown \<Rightarrow> (string, (unit, string) stub_fields) module_instance" where
  "stub_throwing error =
     \<lparr> constructor = ''Stub'',
       instance_fields = \<lparr> on_checkCompliance = Inl error, on_getRequirements = Inl error \<rparr> \<rparr>"

text \<open>
  A module whose outcome depends on state it keeps, as a module of the repository does
  when a configured pattern carries the \<open>g\<close> flag: the pattern matches on every other
  call. The state is the number of calls made so far.
\<close>

definition alternating_checkCompliance ::
  "nat \<Rightarrow> (string, (unit, string) stub_fields) module_instance \<Rightarrow> string \<Rightarrow> unit
   \<Rightarrow> (js_thrown + unit module_result) \<times> nat" where
  "alternating_checkCompliance w inst content context =
     (if even w then on_checkCompliance (instance_fields inst)
      else Inr \<lparr> compliant = True, violations = [], recommendations = [], findings = [] \<rparr>,
      Suc w)"

text \<open>
  What a lookup finds on \<open>Object.prototype\<close>, the prototype of an object literal: eleven
  functions and, under \<open>__proto__\<close>, \<open>Object.prototype\<close> itself. None of them has a
  \<open>checkCompliance\<close> or a \<open>getRequirements\<close> method, so calling one throws a TypeError
  with the text below.
\<close>

definition builtin :: "string \<Rightarrow> (string, (unit, string) stub_fields) module_instance" where
  "builtin cls =
     \<lparr> constructor = cls,
       instance_fields =
         \<lparr> on_checkCompliance =
             Inl (JsError ''this.complianceModules[moduleName].checkCompliance is not a function''),
           on_getRequirements =
             Inl (JsError ''this.complianceModules[moduleName].getRequirements is not a function'') \<rparr> \<rparr>"

definition Object_prototype ::
  "string \<rightharpoonup> (string, (unit, string) stub_fields) module_instance" where
  "Object_prototype =
     map_of [(''constructor'', builtin ''Function''),
             (''__defineGetter__'', builtin ''Function''),
             (''__defineSetter__'', builtin ''Function''),
             (''hasOwnProperty'', builtin ''Function''),
             (''__lookupGetter__'', builtin ''Function''),
             (''__lookupSetter__'', builtin ''Function''),
             (''isPrototypeOf'', builtin ''Function''),
             (''propertyIsEnumerable'', builtin ''Function''),
             (''toString'', builtin ''Function''),
             (''valueOf'', builtin ''Function''),
             (''__proto__'', builtin ''Object''),
             (''toLocaleString'', builtin ''Function'')]"

text \<open>
  \<open>new Function(config)\<close> on a configuration object is a SyntaxError (the object renders
  to a text that is no function body); every other class of the scenarios stores the
  configuration.
\<close>

definition stub_new ::
  "string \<Rightarrow> (unit, string) stub_fields
   \<Rightarrow> js_thrown + (string, (unit, string) stub_fields) module_instance" where
  "stub_new ModuleClass config =
     (if ModuleClass = ''Function'' then Inl (JsError ''Unexpected identifier'')
      else Inr \<lparr> constructor = ModuleClass, instance_fields = config \<rparr>)"

definition stub_proto_of ::
  "(string, (unit, string) stub_fields) module_instance
   \<Rightarrow> string \<rightharpoonup> (string, (unit, string) stub_fields) module_instance" where
  "stub_proto_of v =
     Object_prototype(''__proto__'' \<mapsto> v,
                      ''checkCompliance'' \<mapsto> builtin ''Function'',
                      ''getRequirements'' \<mapsto> builtin ''Function'')"

text \<open>
  An engine as the constructor leaves it: the listed modules as own properties of an
  object literal, and the caller's array of enabled names at reference 0.
\<close>

definition stub_engine ::
  "(string \<times> (string, (unit, string) stub_fields) module_instance) list
   \<Rightarrow> (string, (unit, string) stub_fields) compliance_engine" where
  "stub_engine modules =
     \<lparr> complianceModules = \<lparr> own = map_of modules, inherited = Object_prototype \<rparr>,
       enabledModules = 0,
       failOnAnyViolation = True \<rparr>"

definition stub_store :: "string list \<Rightarrow> bool \<Rightarrow> array_store" where
  "stub_store names can_grow =
     \<lparr> arrays = (\<lambda>r. if r = 0 then \<lparr> elements = names, extensible = can_grow \<rparr>
                      else \<lparr> elements = [], extensible = True \<rparr>),
       allocated = 1 \<rparr>"

definition passing_result :: "unit module_result" where
  "passing_result =
     \<lparr> compliant = True, violations = [],
       recommendations = [''Use ergonomic development practices''], findings = [] \<rparr>"

definition failing_result :: "string \<Rightarrow> unit module_result" where
  "failing_result sev =
     \<lparr> compliant = False,
       violations = [\<lparr> type = ''CONSENT_MISSING'',
                       message = ''Personal data processing without consent mechanism'',
                       severity = sev \<rparr>],
       recommendations = [''Establish data retention schedules'',
                          ''Use ergonomic development practices''],
       findings = [] \<rparr>"

section \<open>Properties\<close>

lemmas stub_defs = stub_engine_def stub_store_def stub_checkCompliance_def
  stub_getRequirements_def stub_new_def stub_proto_of_def stub_returning_def stub_throwing_def
  alternating_checkCompliance_def builtin_def Object_prototype_def passing_result_def
  failing_result_def

lemmas check_defs = checkCompliance_def checkCompliance_step_def catch_block_def
  push_recommendations_def count_violations_def store_property_def js_get_def
  enabled_names_def initial_results_def module_error_def new_Set_def Set_add_def Let_def

subsection \<open>Deduplication\<close>

lemma foldl_Set_add:
  "distinct acc \<Longrightarrow>
   foldl Set_add acc xs = acc @ first_occurrences (filter (\<lambda>y. y \<notin> set acc) xs)"
proof (induction xs arbitrary: acc)
  case Nil
  then show ?case by simp
next
  case (Cons x xs)
  show ?case
  proof (cases "x \<in> set acc")
    case True
    with Cons show ?thesis by (simp add: Set_add_def)
  next
    case False
    have eq: "filter (\<lambda>y. y \<notin> set (acc @ [x])) xs
              = filter (\<lambda>y. y \<noteq> x) (filter (\<lambda>y. y \<notin> set acc) xs)"
      by (induction xs) auto
    from False Cons.prems have "distinct (acc @ [x])" by simp
    from Cons.IH[OF this] False eq show ?thesis by (simp add: Set_add_def)
  qed
qed

lemma new_Set_first_occurrences: "new_Set xs = first_occurrences xs"
  using foldl_Set_add[of "[]" xs] by (simp add: new_Set_def)

lemma set_first_occurrences: "set (first_occurrences xs) = set xs"
  by (induction xs rule: first_occurrences.induct) auto

lemma distinct_first_occurrences: "distinct (first_occurrences xs)"
  by (induction xs rule: first_occurrences.induct) (auto simp: set_first_occurrences)

text \<open>The recommendations of a returned report never hold a string twice.\<close>

lemma recommendations_distinct:
  "checkCompliance max_args call s e content context w = (Inr report, w') \<Longrightarrow>
   distinct (summary_recommendations (summary report))"
  by (auto simp: checkCompliance_def new_Set_first_occurrences distinct_first_occurrences
           split: prod.splits sum.splits)

subsection \<open>The overall flag\<close>

text \<open>
  One half of the relation between \<open>overallCompliant\<close> and the entries of
  \<open>moduleResults\<close> holds on every input: when the flag is true, every entry is compliant.
\<close>

lemma step_overall_true:
  assumes "checkCompliance_step max_args call e content context results w n = (Inr results', w')"
    and "overallCompliant results \<longrightarrow> (\<forall>mr \<in> ran (moduleResults results). compliant mr)"
  shows "overallCompliant results' \<longrightarrow> (\<forall>mr \<in> ran (moduleResults results'). compliant mr)"
  using assms
  by (auto simp: checkCompliance_step_def catch_block_def push_recommendations_def
                 store_property_def Let_def ran_def
           split: option.splits sum.splits prod.splits if_splits)
     blast+

lemma loop_overall_true:
  "checkCompliance_loop max_args call e content context ns results w = (Inr results', w') \<Longrightarrow>
   overallCompliant results \<longrightarrow> (\<forall>mr \<in> ran (moduleResults results). compliant mr) \<Longrightarrow>
   overallCompliant results' \<longrightarrow> (\<forall>mr \<in> ran (moduleResults results'). compliant mr)"
proof (induction ns arbitrary: results w)
  case Nil
  then show ?case by simp
next
  case (Cons a ns)
  from Cons.prems(1) obtain mid w1 where
    s: "checkCompliance_step max_args call e content context results w a = (Inr mid, w1)" and
    l: "checkCompliance_loop max_args call e content context ns mid w1 = (Inr results', w')"
    by (auto split: prod.splits sum.splits)
  from Cons.IH[OF l step_overall_true[OF s Cons.prems(2)]] show ?case .
qed

lemma overallCompliant_true_entries_compliant:
  assumes "checkCompliance max_args call s e content context w = (Inr report, w')"
    and "overallCompliant report"
    and "moduleResults report n = Some mr"
  shows "compliant mr"
proof -
  from assms(1) obtain results where
    l: "checkCompliance_loop max_args call e content context (enabled_names s e)
          initial_results w = (Inr results, w')"
    and r: "overallCompliant report = overallCompliant results"
           "moduleResults report = moduleResults results"
    by (auto simp: checkCompliance_def split: prod.splits sum.splits)
  have "overallCompliant results \<longrightarrow> (\<forall>mr \<in> ran (moduleResults results). compliant mr)"
    by (rule loop_overall_true[OF l]) (simp add: initial_results_def)
  with assms(2,3) r show ?thesis by (auto simp: ran_def)
qed

subsection \<open>The loop of getRequirements\<close>

lemma getRequirements_loop_lookup:
  "getRequirements_loop describe e ns requirements = Inr requirements' \<Longrightarrow>
   requirements' n =
     (if n \<in> set ns \<and> n \<noteq> ''__proto__'' \<and> js_get (complianceModules e) n \<noteq> None
      then (case js_get (complianceModules e) n of
              None \<Rightarrow> None
            | Some inst \<Rightarrow> (case describe inst of Inl t \<Rightarrow> None | Inr r \<Rightarrow> Some r))
      else requirements n)"
proof (induction ns arbitrary: requirements)
  case Nil
  then show ?case by simp
next
  case (Cons a ns)
  show ?case
  proof (cases "js_get (complianceModules e) a")
    case None
    with Cons.prems have "getRequirements_loop describe e ns requirements = Inr requirements'"
      by simp
    from Cons.IH[OF this] None show ?thesis by auto
  next
    case (Some inst)
    with Cons.prems obtain r where d: "describe inst = Inr r"
      and l: "getRequirements_loop describe e ns (store_property requirements a r)
              = Inr requirements'"
      by (auto split: sum.splits)
    from Cons.IH[OF l] Some d show ?thesis by (auto simp: store_property_def)
  qed
qed

lemma getRequirements_loop_returns:
  "\<forall>n \<in> set ns. \<forall>inst. js_get (complianceModules e) n = Some inst
      \<longrightarrow> (\<exists>r. describe inst = Inr r) \<Longrightarrow>
   \<exists>requirements'. getRequirements_loop describe e ns requirements = Inr requirements'"
proof (induction ns arbitrary: requirements)
  case Nil
  then show ?case by simp
next
  case (Cons a ns)
  from Cons.prems have
    "\<forall>n \<in> set ns. \<forall>inst. js_get (complianceModules e) n = Some inst
        \<longrightarrow> (\<exists>r. describe inst = Inr r)"
    by simp
  from Cons.IH[OF this]
  have rest: "\<exists>requirements'. getRequirements_loop describe e ns rq = Inr requirements'" for rq .
  show ?case
  proof (cases "js_get (complianceModules e) a")
    case None
    with rest show ?thesis by simp
  next
    case (Some inst)
    with Cons.prems obtain r where "describe inst = Inr r" by auto
    with Some rest show ?thesis by simp
  qed
qed

lemma getRequirements_loop_throws:
  "\<exists>n \<in> set ns. \<exists>inst t. js_get (complianceModules e) n = Some inst \<and> describe inst = Inl t \<Longrightarrow>
   \<exists>n \<in> set ns. \<exists>inst t. js_get (complianceModules e) n = Some inst \<and> describe inst = Inl t
       \<and> getRequirements_loop describe e ns requirements = Inl (Uncaught t)"
proof (induction ns arbitrary: requirements)
  case Nil
  then show ?case by simp
next
  case (Cons a ns)
  show ?case
  proof (cases "\<exists>inst t. js_get (complianceModules e) a = Some inst \<and> describe inst = Inl t")
    case True
    then show ?thesis by auto
  next
    case False
    with Cons.prems have
      "\<exists>n \<in> set ns. \<exists>inst t. js_get (complianceModules e) n = Some inst \<and> describe inst = Inl t"
      by auto
    from Cons.IH[OF this]
    have ih: "\<exists>n \<in> set ns. \<exists>inst t. js_get (complianceModules e) n = Some inst
                \<and> describe inst = Inl t
                \<and> getRequirements_loop describe e ns rq = Inl (Uncaught t)" for rq .
    show ?thesis
    proof (cases "js_get (complianceModules e) a")
      case None
      with ih[of requirements] show ?thesis by auto
    next
      case (Some inst)
      with False obtain r where d: "describe inst = Inr r"
        by (cases "describe inst") auto
      from ih[of "store_property requirements a r"] Some d show ?thesis by auto
    qed
  qed
qed

subsection \<open>The counters count\<close>

text \<open>A single violation of severity \<open>HIGH\<close> is counted by \<open>summary.highViolations\<close>.\<close>

lemma high_violation_is_counted:
  "checkCompliance 65536 stub_checkCompliance (stub_store [''B''] True)
     (stub_engine [(''B'', stub_returning (failing_result ''HIGH''))]) ''content'' () ()
   = (Inr \<lparr> overallCompliant = False,
            moduleResults = [''B'' \<mapsto> failing_result ''HIGH''],
            summary = \<lparr> totalViolations = 1, criticalViolations = 0, highViolations = 1,
                        summary_recommendations =
                          [''Establish data retention schedules'',
                           ''Use ergonomic development practices''] \<rparr> \<rparr>, ())"
  by (simp add: stub_defs check_defs)

text \<open>
  A spread that exceeds the accepted number of arguments (here 1, to keep the input small)
  throws inside the \<open>try\<close> after the counters were updated: the module's result is
  replaced by the \<open>MODULE_ERROR\<close> object while its violation stays counted.
\<close>

lemma spread_push_failure_is_caught:
  "checkCompliance 1 stub_checkCompliance (stub_store [''B''] True)
     (stub_engine [(''B'', stub_returning (failing_result ''CRITICAL''))]) ''content'' () ()
   = (Inr \<lparr> overallCompliant = False,
            moduleResults = [''B'' \<mapsto> module_error ''B'' RangeError_message],
            summary = \<lparr> totalViolations = 1, criticalViolations = 1, highViolations = 0,
                        summary_recommendations = [] \<rparr> \<rparr>, ())"
  by (simp add: stub_defs check_defs)

section \<open>The claims\<close>

text \<open>
  C1, at a failing input. Module \<open>B\<close> throws an error with the message \<open>boom\<close>. The report
  holds the \<open>MODULE_ERROR\<close> object for \<open>B\<close>, so the violations of its \<open>moduleResults\<close> add
  up to 1, while \<open>summary.totalViolations\<close> is 0: the \<open>catch\<close> block stores the violation
  and does not count it.
\<close>

theorem totalViolations_misses_module_error:
  "checkCompliance 65536 stub_checkCompliance (stub_store [''A'', ''B''] True)
     (stub_engine [(''A'', stub_returning passing_result),
                   (''B'', stub_throwing (JsError ''boom''))]) ''content'' () ()
   = (Inr \<lparr> overallCompliant = False,
            moduleResults = [''A'' \<mapsto> passing_result, ''B'' \<mapsto> module_error ''B'' ''boom''],
            summary = \<lparr> totalViolations = 0, criticalViolations = 0, highViolations = 0,
                        summary_recommendations = [''Use ergonomic development practices''] \<rparr> \<rparr>,
      ())
   \<and> (\<Sum>n \<in> dom [''A'' \<mapsto> passing_result,
                    ''B'' \<mapsto> module_error ''B'' ''boom'' :: unit module_result].
         length (violations (the ([''A'' \<mapsto> passing_result,
                                   ''B'' \<mapsto> module_error ''B'' ''boom''] n)))) = 1"
  by (simp add: stub_defs check_defs)

text \<open>
  C3, at a failing input. Module \<open>B\<close> rejects with \<open>undefined\<close>, modules \<open>A\<close> and \<open>C\<close> return
  normally. Reading \<open>error.message\<close> in the \<open>catch\<close> block raises a TypeError: the round does
  not complete, and no report is returned for \<open>A\<close> and \<open>C\<close> either.
\<close>

theorem nullish_throw_aborts_round:
  "checkCompliance 65536 stub_checkCompliance (stub_store [''A'', ''B'', ''C''] True)
     (stub_engine [(''A'', stub_returning passing_result),
                   (''B'', stub_throwing JsUndefined),
                   (''C'', stub_returning (failing_result ''HIGH''))]) ''content'' () ()
   = (Inl TypeError, ())"
  by (simp add: stub_defs check_defs)

text \<open>
  C4, at a failing input. The only enabled module throws \<open>null\<close>; \<open>checkCompliance\<close> raises
  a TypeError to its caller instead of returning a report.
\<close>

theorem checkCompliance_raises_TypeError:
  "checkCompliance 65536 stub_checkCompliance (stub_store [''B''] True)
     (stub_engine [(''B'', stub_throwing JsNull)]) ''content'' () ()
   = (Inl TypeError, ())"
  by (simp add: stub_defs check_defs)

text \<open>
  C5, at two failing inputs. In the first the enabled names are \<open>A\<close> and \<open>__proto__\<close>: the
  lookup of \<open>__proto__\<close> finds \<open>Object.prototype\<close>, the call on it throws, and the
  assignment of the \<open>MODULE_ERROR\<close> object under that name stores no entry. In the second
  the name \<open>A\<close> is listed twice and the module returns a non-compliant result on the first
  visit and a compliant one on the second, which overwrites the first. Both reports have
  \<open>overallCompliant\<close> false although every entry of \<open>moduleResults\<close> is compliant.
\<close>

theorem overallCompliant_false_with_compliant_entries:
  "checkCompliance 65536 stub_checkCompliance (stub_store [''A'', ''__proto__''] True)
     (stub_engine [(''A'', stub_returning passing_result)]) ''content'' () ()
   = (Inr \<lparr> overallCompliant = False,
            moduleResults = [''A'' \<mapsto> passing_result],
            summary = \<lparr> totalViolations = 0, criticalViolations = 0, highViolations = 0,
                        summary_recommendations = [''Use ergonomic development practices''] \<rparr> \<rparr>,
      ())
   \<and> checkCompliance 65536 alternating_checkCompliance (stub_store [''A'', ''A''] True)
       (stub_engine [(''A'', stub_returning (failing_result ''CRITICAL''))]) ''content'' () 0
   = (Inr \<lparr> overallCompliant = False,
            moduleResults = [''A'' \<mapsto> \<lparr> compliant = True, violations = [],
                                        recommendations = [], findings = [] \<rparr>],
            summary = \<lparr> totalViolations = 1, criticalViolations = 1, highViolations = 0,
                        summary_recommendations =
                          [''Establish data retention schedules'',
                           ''Use ergonomic development practices''] \<rparr> \<rparr>,
      2)
   \<and> compliant passing_result"
  by (simp add: stub_defs check_defs)

text \<open>
  C7, at a failing input. In the first round module \<open>B\<close> throws an error with the message
  \<open>boom\<close>; in the second it returns, as its result, the very object the \<open>catch\<close> block
  builds for that throw. Both rounds return the same \<open>moduleResults\<close> and different
  summaries, so the summary is not reproduced by recomputing it from \<open>moduleResults\<close>.
\<close>

theorem summary_not_determined_by_moduleResults:
  "checkCompliance 65536 stub_checkCompliance (stub_store [''A'', ''B''] True)
     (stub_engine [(''A'', stub_returning passing_result),
                   (''B'', stub_throwing (JsError ''boom''))]) ''content'' () ()
   = (Inr \<lparr> overallCompliant = False,
            moduleResults = [''A'' \<mapsto> passing_result, ''B'' \<mapsto> module_error ''B'' ''boom''],
            summary = \<lparr> totalViolations = 0, criticalViolations = 0, highViolations = 0,
                        summary_recommendations = [''Use ergonomic development practices''] \<rparr> \<rparr>,
      ())
   \<and> checkCompliance 65536 stub_checkCompliance (stub_store [''A'', ''B''] True)
     (stub_engine [(''A'', stub_returning passing_result),
                   (''B'', stub_returning (module_error ''B'' ''boom''))]) ''content'' () ()
   = (Inr \<lparr> overallCompliant = False,
            moduleResults = [''A'' \<mapsto> passing_result, ''B'' \<mapsto> module_error ''B'' ''boom''],
            summary = \<lparr> totalViolations = 1, criticalViolations = 0, highViolations = 1,
                        summary_recommendations = [''Use ergonomic development practices''] \<rparr> \<rparr>,
      ())"
  by (simp add: stub_defs check_defs)

text \<open>
  C10, at a failing input. No module is stored under \<open>toString\<close>, yet the lookup finds the
  function inherited from \<open>Object.prototype\<close>. With that name in the enabled list
  \<open>checkCompliance\<close> does not skip it: the call throws, a \<open>MODULE_ERROR\<close> entry is stored
  under \<open>toString\<close> and \<open>overallCompliant\<close> is false, where the report without the name is
  compliant; and \<open>getRequirements\<close> raises the TypeError of the failed call.
\<close>

theorem inherited_name_is_not_skipped:
  "own (complianceModules (stub_engine [(''A'', stub_returning passing_result)])) ''toString''
   = None
   \<and> checkCompliance 65536 stub_checkCompliance (stub_store [''A'', ''toString''] True)
       (stub_engine [(''A'', stub_returning passing_result)]) ''content'' () ()
   = (Inr \<lparr> overallCompliant = False,
            moduleResults =
              [''A'' \<mapsto> passing_result,
               ''toString'' \<mapsto> module_error ''toString''
                 ''this.complianceModules[moduleName].checkCompliance is not a function''],
            summary = \<lparr> totalViolations = 0, criticalViolations = 0, highViolations = 0,
                        summary_recommendations = [''Use ergonomic development practices''] \<rparr> \<rparr>,
      ())
   \<and> checkCompliance 65536 stub_checkCompliance (stub_store [''A''] True)
       (stub_engine [(''A'', stub_returning passing_result)]) ''content'' () ()
   = (Inr \<lparr> overallCompliant = True,
            moduleResults = [''A'' \<mapsto> passing_result],
            summary = \<lparr> totalViolations = 0, criticalViolations = 0, highViolations = 0,
                        summary_recommendations = [''Use ergonomic development practices''] \<rparr> \<rparr>,
      ())
   \<and> getRequirements stub_getRequirements (stub_store [''A'', ''toString''] True)
       (stub_engine [(''A'', stub_returning passing_result)])
   = Inl (Uncaught (JsError
       ''this.complianceModules[moduleName].getRequirements is not a function''))"
  by (simp add: stub_defs check_defs getRequirements_def)

text \<open>
  C2, as the code has it. \<open>getRequirements\<close> has no failure isolation. When the
  \<open>getRequirements\<close> call of every enabled name under which the lookup finds a value
  returns, the result is the mapping of exactly these names to what their calls returned
  (the requirements are stored by property assignment, so never under the name
  \<open>__proto__\<close>). When the call for some enabled name throws, \<open>getRequirements\<close> returns no
  mapping: a value thrown by such a call reaches the caller.
\<close>

theorem getRequirements_propagates:
  "((\<forall>n inst. n \<in> set (enabled_names s e) \<longrightarrow> js_get (complianceModules e) n = Some inst
        \<longrightarrow> (\<exists>r. describe inst = Inr r))
     \<longrightarrow> (\<exists>requirements. getRequirements describe s e = Inr requirements
           \<and> (\<forall>n r. (requirements n = Some r)
                 = (n \<in> set (enabled_names s e) \<and> n \<noteq> ''__proto__''
                    \<and> (\<exists>inst. js_get (complianceModules e) n = Some inst
                           \<and> describe inst = Inr r)))))
   \<and> ((\<exists>n inst t. n \<in> set (enabled_names s e) \<and> js_get (complianceModules e) n = Some inst
          \<and> describe inst = Inl t)
     \<longrightarrow> (\<exists>n inst t. n \<in> set (enabled_names s e) \<and> js_get (complianceModules e) n = Some inst
          \<and> describe inst = Inl t \<and> getRequirements describe s e = Inl (Uncaught t)))"
proof (intro conjI impI)
  assume ok: "\<forall>n inst. n \<in> set (enabled_names s e)
        \<longrightarrow> js_get (complianceModules e) n = Some inst \<longrightarrow> (\<exists>r. describe inst = Inr r)"
  then obtain requirements where
    g: "getRequirements_loop describe e (enabled_names s e) Map.empty = Inr requirements"
    using getRequirements_loop_returns[of "enabled_names s e" e describe Map.empty] by blast
  have "(requirements n = Some r)
         = (n \<in> set (enabled_names s e) \<and> n \<noteq> ''__proto__''
            \<and> (\<exists>inst. js_get (complianceModules e) n = Some inst \<and> describe inst = Inr r))"
    for n r
    using getRequirements_loop_lookup[OF g, of n]
    by (auto split: option.splits sum.splits)
  with g show "\<exists>requirements. getRequirements describe s e = Inr requirements
           \<and> (\<forall>n r. (requirements n = Some r)
                 = (n \<in> set (enabled_names s e) \<and> n \<noteq> ''__proto__''
                    \<and> (\<exists>inst. js_get (complianceModules e) n = Some inst
                           \<and> describe inst = Inr r)))"
    by (auto simp: getRequirements_def)
next
  assume "\<exists>n inst t. n \<in> set (enabled_names s e) \<and> js_get (complianceModules e) n = Some inst
          \<and> describe inst = Inl t"
  then have "\<exists>n \<in> set (enabled_names s e).
               \<exists>inst t. js_get (complianceModules e) n = Some inst \<and> describe inst = Inl t"
    by blast
  from getRequirements_loop_throws[OF this, of Map.empty]
  show "\<exists>n inst t. n \<in> set (enabled_names s e) \<and> js_get (complianceModules e) n = Some inst
          \<and> describe inst = Inl t \<and> getRequirements describe s e = Inl (Uncaught t)"
    by (auto simp: getRequirements_def)
qed

text \<open>
  The claim as stated fails: module \<open>B\<close> throws from its \<open>getRequirements\<close>, and the engine's
  \<open>getRequirements\<close> raises that value instead of returning a mapping with a placeholder
  for \<open>B\<close> and the requirements of \<open>A\<close>.
\<close>

theorem getRequirements_isolation_counterexample:
  "getRequirements stub_getRequirements (stub_store [''A'', ''B''] True)
     (stub_engine [(''A'', stub_returning passing_result),
                   (''B'', stub_throwing (JsError ''describe failed''))])
   = Inl (Uncaught (JsError ''describe failed''))"
  by (simp add: stub_defs js_get_def enabled_names_def store_property_def getRequirements_def)

theorem getRequirements_propagates_witness:
  "getRequirements stub_getRequirements (stub_store [''A'', ''ghost'', ''C''] True)
     (stub_engine [(''A'', stub_returning passing_result),
                   (''C'', stub_returning (failing_result ''HIGH''))])
   = Inr [''A'' \<mapsto> ''stub requirements'', ''C'' \<mapsto> ''stub requirements'']
   \<and> (\<exists>n inst t. n \<in> set [''B'', ''A'']
        \<and> js_get (complianceModules (stub_engine [(''A'', stub_returning passing_result),
                   (''B'', stub_throwing JsNull)])) n = Some inst
        \<and> stub_getRequirements inst = Inl t
        \<and> getRequirements stub_getRequirements (stub_store [''B'', ''A''] True)
             (stub_engine [(''A'', stub_returning passing_result),
                   (''B'', stub_throwing JsNull)]) = Inl (Uncaught t))"
proof -
  let ?s1 = "stub_store [''A'', ''ghost'', ''C''] True"
  let ?e1 = "stub_engine [(''A'', stub_returning passing_result),
                   (''C'', stub_returning (failing_result ''HIGH''))]"
  let ?s2 = "stub_store [''B'', ''A''] True"
  let ?e2 = "stub_engine [(''A'', stub_returning passing_result),
                   (''B'', stub_throwing JsNull)]"
  have h1: "\<forall>n inst. n \<in> set (enabled_names ?s1 ?e1)
        \<longrightarrow> js_get (complianceModules ?e1) n = Some inst
        \<longrightarrow> (\<exists>r. stub_getRequirements inst = Inr r)"
    by (auto simp: stub_defs js_get_def enabled_names_def split: if_splits)
  have h2: "\<exists>n inst t. n \<in> set (enabled_names ?s2 ?e2)
          \<and> js_get (complianceModules ?e2) n = Some inst
          \<and> stub_getRequirements inst = Inl t"
    by (rule exI[of _ "''B''"]) (simp add: stub_defs js_get_def enabled_names_def)
  have v: "getRequirements stub_getRequirements ?s1 ?e1
           = Inr [''A'' \<mapsto> ''stub requirements'', ''C'' \<mapsto> ''stub requirements'']"
    by (simp add: stub_defs js_get_def enabled_names_def store_property_def getRequirements_def)
  have en: "enabled_names ?s2 ?e2 = [''B'', ''A'']"
    by (simp add: stub_defs enabled_names_def)
  from getRequirements_propagates[of ?s1 ?e1 stub_getRequirements] h1
       getRequirements_propagates[of ?s2 ?e2 stub_getRequirements] h2 v
  show ?thesis unfolding en by blast
qed

text \<open>
  C6, as the code has it. With exactly two enabled modules, \<open>a\<close> returning
  \<open>compliant: true\<close> and no violation and \<open>b\<close> returning \<open>compliant: false\<close> and one
  violation of severity \<open>CRITICAL\<close>, \<open>checkCompliance\<close> returns a report with
  \<open>overallCompliant\<close> false, \<open>summary.totalViolations\<close> 1, \<open>summary.criticalViolations\<close> 1
  and \<open>summary.highViolations\<close> 0, and the summary has no property
  \<open>violationsBySeverity\<close>.
\<close>

theorem two_module_scenario:
  assumes "enabled_names s e = [a, b]" and "a \<noteq> b"
    and "js_get (complianceModules e) a = Some instA"
    and "js_get (complianceModules e) b = Some instB"
    and "call w instA content context = (Inr resultA, w1)"
    and "compliant resultA" and "violations resultA = []"
    and "call w1 instB content context = (Inr resultB, w2)"
    and "\<not> compliant resultB" and "violations resultB = [v]" and "severity v = ''CRITICAL''"
  shows "\<exists>report. checkCompliance max_args call s e content context w = (Inr report, w2)
           \<and> overallCompliant report = False
           \<and> summary_property (summary report) ''totalViolations'' = Some (Number 1)
           \<and> summary_property (summary report) ''criticalViolations'' = Some (Number 1)
           \<and> summary_property (summary report) ''highViolations'' = Some (Number 0)
           \<and> summary_property (summary report) ''violationsBySeverity'' = None"
  using assms
  by (auto simp: checkCompliance_def checkCompliance_step_def catch_block_def
                 push_recommendations_def count_violations_def initial_results_def
                 module_error_def summary_property_def RangeError_message_def Let_def)

theorem two_module_scenario_witness:
  "\<exists>report. checkCompliance 65536 stub_checkCompliance (stub_store [''A'', ''B''] True)
       (stub_engine [(''A'', stub_returning passing_result),
                     (''B'', stub_returning (failing_result ''CRITICAL''))]) ''content'' () ()
       = (Inr report, ())
     \<and> overallCompliant report = False
     \<and> summary_property (summary report) ''totalViolations'' = Some (Number 1)
     \<and> summary_property (summary report) ''criticalViolations'' = Some (Number 1)
     \<and> summary_property (summary report) ''highViolations'' = Some (Number 0)
     \<and> summary_property (summary report) ''violationsBySeverity'' = None"
  by (rule two_module_scenario[where a = "''A''" and b = "''B''"
                and instA = "stub_returning passing_result"
                and instB = "stub_returning (failing_result ''CRITICAL'')"
                and resultA = passing_result
                and resultB = "failing_result ''CRITICAL''"
                and ?w1.0 = "()"
                and v = "\<lparr> type = ''CONSENT_MISSING'',
                     message = ''Personal data processing without consent mechanism'',
                     severity = ''CRITICAL'' \<rparr>"])
     (simp_all add: stub_defs js_get_def enabled_names_def)

text \<open>
  The claim as stated fails, in its own scenario: the summary of the returned report has
  the properties \<open>totalViolations\<close>, \<open>criticalViolations\<close>, \<open>highViolations\<close> and
  \<open>recommendations\<close>, and \<open>summary.violationsBySeverity\<close> is undefined, so there is no
  mapping to read a count of \<open>CRITICAL\<close> from.
\<close>

theorem summary_has_no_severity_mapping_counterexample:
  "checkCompliance 65536 stub_checkCompliance (stub_store [''A'', ''B''] True)
     (stub_engine [(''A'', stub_returning passing_result),
                   (''B'', stub_returning (failing_result ''CRITICAL''))]) ''content'' () ()
   = (Inr \<lparr> overallCompliant = False,
            moduleResults = [''A'' \<mapsto> passing_result, ''B'' \<mapsto> failing_result ''CRITICAL''],
            summary = \<lparr> totalViolations = 1, criticalViolations = 1, highViolations = 0,
                        summary_recommendations =
                          [''Use ergonomic development practices'',
                           ''Establish data retention schedules''] \<rparr> \<rparr>,
      ())
   \<and> summary_property
        \<lparr> totalViolations = 1, criticalViolations = 1, highViolations = 0,
          summary_recommendations =
            [''Use ergonomic development practices'',
             ''Establish data retention schedules''] \<rparr> ''violationsBySeverity''
     = None"
  by (simp add: stub_defs check_defs summary_property_def)

text \<open>
  C8, as the code has it. For a name under which the lookup in the module map finds
  nothing (no own entry and nothing inherited), \<open>configureModule\<close> returns normally and
  leaves the engine as it is. For a registered name, one with an own entry, it runs the
  constructor of that entry's class on the configuration and, when the constructor
  returns, stores the fresh instance under that name; every other entry, what the map
  inherits, the enabled list and \<open>failOnAnyViolation\<close> stay as they are.
\<close>

theorem configureModule_replaces_or_ignores:
  "(js_get (complianceModules e) moduleName = None
      \<longrightarrow> configureModule new proto_of e moduleName config = Inr e)
   \<and> (\<forall>inst fresh. own (complianceModules e) moduleName = Some inst
           \<and> new (constructor inst) config = Inr fresh
      \<longrightarrow> (\<exists>e'. configureModule new proto_of e moduleName config = Inr e'
            \<and> own (complianceModules e') moduleName = Some fresh
            \<and> (\<forall>other. other \<noteq> moduleName
                  \<longrightarrow> own (complianceModules e') other = own (complianceModules e) other)
            \<and> inherited (complianceModules e') = inherited (complianceModules e)
            \<and> enabledModules e' = enabledModules e
            \<and> failOnAnyViolation e' = failOnAnyViolation e))"
  by (auto simp: configureModule_def js_get_def js_set_def Let_def)

text \<open>
  The claim as stated fails: configuring a name that was never registered raises nothing,
  the call returns with the engine unchanged.
\<close>

theorem configureModule_unknown_name_counterexample:
  "js_get (complianceModules (stub_engine [(''A'', stub_returning passing_result)])) ''unknown''
   = None
   \<and> configureModule stub_new stub_proto_of
        (stub_engine [(''A'', stub_returning passing_result)]) ''unknown''
        \<lparr> on_checkCompliance = Inr passing_result, on_getRequirements = Inr ''new'' \<rparr>
     = Inr (stub_engine [(''A'', stub_returning passing_result)])"
  by (simp add: stub_defs configureModule_def js_get_def)

theorem configureModule_replaces_or_ignores_witness:
  "configureModule stub_new stub_proto_of
        (stub_engine [(''A'', stub_returning passing_result)]) ''unknown''
        \<lparr> on_checkCompliance = Inr passing_result, on_getRequirements = Inr ''new'' \<rparr>
     = Inr (stub_engine [(''A'', stub_returning passing_result)])
   \<and> (\<exists>e'. configureModule stub_new stub_proto_of
             (stub_engine [(''A'', stub_returning passing_result),
                           (''B'', stub_throwing JsNull)])
             ''B'' \<lparr> on_checkCompliance = Inr passing_result, on_getRequirements = Inr ''new'' \<rparr>
           = Inr e'
        \<and> own (complianceModules e') ''B''
            = Some \<lparr> constructor = ''Stub'',
                     instance_fields = \<lparr> on_checkCompliance = Inr passing_result,
                                         on_getRequirements = Inr ''new'' \<rparr> \<rparr>
        \<and> own (complianceModules e') ''A'' = Some (stub_returning passing_result)
        \<and> enabledModules e' = 0)"
proof -
  let ?cfg = "\<lparr> on_checkCompliance = Inr passing_result, on_getRequirements = Inr ''new'' \<rparr>
               :: (unit, string) stub_fields"
  let ?e1 = "stub_engine [(''A'', stub_returning passing_result)]"
  let ?e2 = "stub_engine [(''A'', stub_returning passing_result),
                           (''B'', stub_throwing JsNull)]"
  have h1: "js_get (complianceModules ?e1) ''unknown'' = None"
    by (simp add: stub_defs js_get_def)
  have h2: "own (complianceModules ?e2) ''B'' = Some (stub_throwing JsNull)
            \<and> stub_new (constructor (stub_throwing JsNull)) ?cfg
               = Inr \<lparr> constructor = ''Stub'', instance_fields = ?cfg \<rparr>"
    by (simp add: stub_defs)
  from configureModule_replaces_or_ignores[of ?e1 "''unknown''" stub_new stub_proto_of ?cfg] h1
  have a: "configureModule stub_new stub_proto_of ?e1 ''unknown'' ?cfg = Inr ?e1" by blast
  from configureModule_replaces_or_ignores[of ?e2 "''B''" stub_new stub_proto_of ?cfg] h2
  obtain e' where "configureModule stub_new stub_proto_of ?e2 ''B'' ?cfg = Inr e'"
    and "own (complianceModules e') ''B''
           = Some \<lparr> constructor = ''Stub'', instance_fields = ?cfg \<rparr>"
    and "\<forall>other. other \<noteq> ''B''
           \<longrightarrow> own (complianceModules e') other = own (complianceModules ?e2) other"
    and "enabledModules e' = enabledModules ?e2"
    by blast
  then have "configureModule stub_new stub_proto_of ?e2 ''B'' ?cfg = Inr e'
        \<and> own (complianceModules e') ''B''
            = Some \<lparr> constructor = ''Stub'', instance_fields = ?cfg \<rparr>
        \<and> own (complianceModules e') ''A'' = Some (stub_returning passing_result)
        \<and> enabledModules e' = 0"
    by (simp add: stub_defs)
  with a show ?thesis by blast
qed

text \<open>
  C9, as the code has it. \<open>setModuleEnabled\<close> never looks at the module map and never
  changes it. With flag false it points the engine at a new array, the enabled names
  without the given one, and leaves every existing array as it is. With flag true it
  changes nothing when the name is already enabled; otherwise it appends the name to the
  enabled array in place, or raises a TypeError when that array cannot grow. It is
  idempotent: applied again after it returned, it returns and leaves the enabled names,
  the module map and every existing array as the first application left them.
\<close>

theorem setModuleEnabled_idempotent:
  "(\<exists>s1 e1. setModuleEnabled s e moduleName False = Inr (s1, e1)
       \<and> enabled_names s1 e1 = filter (\<lambda>m. m \<noteq> moduleName) (enabled_names s e)
       \<and> enabledModules e1 = allocated s
       \<and> (\<forall>r. r \<noteq> allocated s \<longrightarrow> arrays s1 r = arrays s r))
   \<and> (moduleName \<in> set (enabled_names s e)
        \<longrightarrow> setModuleEnabled s e moduleName True = Inr (s, e))
   \<and> (moduleName \<notin> set (enabled_names s e) \<and> extensible (arrays s (enabledModules e))
        \<longrightarrow> (\<exists>s1. setModuleEnabled s e moduleName True = Inr (s1, e)
              \<and> enabled_names s1 e = enabled_names s e @ [moduleName]
              \<and> (\<forall>r. r \<noteq> enabledModules e \<longrightarrow> arrays s1 r = arrays s r)))
   \<and> (moduleName \<notin> set (enabled_names s e) \<and> \<not> extensible (arrays s (enabledModules e))
        \<longrightarrow> setModuleEnabled s e moduleName True = Inl TypeError)
   \<and> (\<forall>s1 e1. setModuleEnabled s e moduleName enabled = Inr (s1, e1)
        \<longrightarrow> complianceModules e1 = complianceModules e
          \<and> failOnAnyViolation e1 = failOnAnyViolation e
          \<and> (\<exists>s2 e2. setModuleEnabled s1 e1 moduleName enabled = Inr (s2, e2)
                \<and> enabled_names s2 e2 = enabled_names s1 e1
                \<and> complianceModules e2 = complianceModules e1
                \<and> failOnAnyViolation e2 = failOnAnyViolation e1
                \<and> (\<forall>r. r \<noteq> allocated s1 \<longrightarrow> arrays s2 r = arrays s1 r)))"
  by (auto simp: setModuleEnabled_def enabled_names_def Let_def split: if_splits)

text \<open>
  The claim as stated fails: enabling a name that is not registered is not a no-op, the
  name is appended to the enabled list.
\<close>

theorem setModuleEnabled_unknown_name_counterexample:
  "js_get (complianceModules (stub_engine [(''A'', stub_returning passing_result)])) ''unknown''
   = None
   \<and> enabled_names (stub_store [''A''] True)
       (stub_engine [(''A'', stub_returning passing_result)]) = [''A'']
   \<and> map_sum id (\<lambda>(s1, e1). enabled_names s1 e1)
       (setModuleEnabled (stub_store [''A''] True)
          (stub_engine [(''A'', stub_returning passing_result)]) ''unknown'' True)
     = Inr [''A'', ''unknown'']"
  by (simp add: stub_defs setModuleEnabled_def enabled_names_def js_get_def)

theorem setModuleEnabled_idempotent_witness:
  "(\<exists>s1. setModuleEnabled (stub_store [''A''] True)
            (stub_engine [(''A'', stub_returning passing_result)]) ''unknown'' True
          = Inr (s1, stub_engine [(''A'', stub_returning passing_result)])
        \<and> enabled_names s1 (stub_engine [(''A'', stub_returning passing_result)])
          = [''A'', ''unknown''])
   \<and> setModuleEnabled (stub_store [''A''] False)
        (stub_engine [(''A'', stub_returning passing_result)]) ''unknown'' True
     = Inl TypeError
   \<and> setModuleEnabled (stub_store [''A''] False)
        (stub_engine [(''A'', stub_returning passing_result)]) ''A'' True
     = Inr (stub_store [''A''] False, stub_engine [(''A'', stub_returning passing_result)])"
proof -
  let ?e = "stub_engine [(''A'', stub_returning passing_result)]"
  have n1: "''unknown'' \<notin> set (enabled_names (stub_store [''A''] True) ?e)
            \<and> extensible (arrays (stub_store [''A''] True) (enabledModules ?e))"
    by (simp add: stub_defs enabled_names_def)
  have n2: "''unknown'' \<notin> set (enabled_names (stub_store [''A''] False) ?e)
            \<and> \<not> extensible (arrays (stub_store [''A''] False) (enabledModules ?e))"
    by (simp add: stub_defs enabled_names_def)
  have n3: "''A'' \<in> set (enabled_names (stub_store [''A''] False) ?e)"
    by (simp add: stub_defs enabled_names_def)
  have en: "enabled_names (stub_store [''A''] True) ?e = [''A'']"
    by (simp add: stub_defs enabled_names_def)
  from setModuleEnabled_idempotent[of "stub_store [''A''] True" ?e "''unknown''"] n1
  have "\<exists>s1. setModuleEnabled (stub_store [''A''] True) ?e ''unknown'' True = Inr (s1, ?e)
              \<and> enabled_names s1 ?e
                = enabled_names (stub_store [''A''] True) ?e @ [''unknown'']"
    by blast
  then have a: "\<exists>s1. setModuleEnabled (stub_store [''A''] True) ?e ''unknown'' True
                   = Inr (s1, ?e)
              \<and> enabled_names s1 ?e = [''A'', ''unknown'']"
    by (simp add: en)
  from setModuleEnabled_idempotent[of "stub_store [''A''] False" ?e "''unknown''"] n2
  have b: "setModuleEnabled (stub_store [''A''] False) ?e ''unknown'' True = Inl TypeError"
    by blast
  from setModuleEnabled_idempotent[of "stub_store [''A''] False" ?e "''A''"] n3
  have c: "setModuleEnabled (stub_store [''A''] False) ?e ''A'' True
           = Inr (stub_store [''A''] False, ?e)"
    by blast
  from a b c show ?thesis by blast
qed


end
